theory Spec2Isabelle
  imports Complex_Main "HOL-Library.Log_Nat"
begin

section \<open>The browser's key-value storage\<close>

text \<open>
  Every store of the shop keeps its data in \<^verbatim>\<open>localStorage\<close> under a key of its own and
  re-reads it on every call. A stored payload is a string; what matters to the stores is
  whether the key is there and whether \<^verbatim>\<open>JSON.parse\<close> accepts the payload:
  \<^item> \<open>Absent\<close>: \<^verbatim>\<open>getItem\<close> gives \<^verbatim>\<open>null\<close> (or the empty string, which is falsy too);
  \<^item> \<open>Garbled\<close>: a payload on which \<^verbatim>\<open>JSON.parse\<close> throws;
  \<^item> \<open>Stored v\<close>: the payload that \<^verbatim>\<open>JSON.stringify\<close> wrote for \<open>v\<close>.
  The calls \<^verbatim>\<open>getItem\<close>, \<^verbatim>\<open>setItem\<close> and \<^verbatim>\<open>removeItem\<close> themselves are taken not to throw
  (storage is available and within quota).
\<close>

datatype 'a cell = Absent | Garbled | Stored 'a

subsection \<open>Strings\<close>

text \<open>
  Strings are byte lists; \<^verbatim>\<open>toLowerCase\<close> and \<^verbatim>\<open>trim\<close> are modelled on ASCII, where
  lowering adds 32 to the letters \<^verbatim>\<open>A\<close>..\<^verbatim>\<open>Z\<close> and white space is blank, tab, line feed,
  vertical tab, form feed and carriage return.
\<close>

definition lowerChar :: "char \<Rightarrow> char" where
  "lowerChar c =
     (let n = (of_char c :: nat) in if 65 \<le> n \<and> n \<le> 90 then char_of (n + 32) else c)"

definition toLowerCase :: "string \<Rightarrow> string" where
  "toLowerCase s = map lowerChar s"

definition isSpace :: "char \<Rightarrow> bool" where
  "isSpace c = (let n = (of_char c :: nat) in n = 32 \<or> (9 \<le> n \<and> n \<le> 13))"

definition trim :: "string \<Rightarrow> string" where
  "trim s = rev (dropWhile isSpace (rev (dropWhile isSpace s)))"

definition digitChar :: "nat \<Rightarrow> char" where
  "digitChar d = ''0123456789'' ! d"

fun showNat :: "nat \<Rightarrow> string" where
  "showNat n = (if n < 10 then [digitChar n] else showNat (n div 10) @ [digitChar (n mod 10)])"

declare showNat.simps [simp del]

section \<open>JavaScript values\<close>

text \<open>
  The numeric fields of products, cart lines and orders hold JavaScript values. A number is
  an IEEE 754 double: \<open>Fin v\<close> is the finite double of value \<open>v\<close>, a rational (the sign of
  zero is not kept), and \<open>PInf\<close>, \<open>NInf\<close> and \<open>NaN\<close> are the infinities and not-a-number.
  \<open>Null\<close> and \<open>Undefined\<close> are the values of these names; an undefined property is an absent
  one. \<open>Function\<close> is a function object, as the methods inherited from \<^verbatim>\<open>Object.prototype\<close>
  are, and \<open>Object\<close> an object without enumerable own properties and with the inherited
  \<^verbatim>\<open>toString\<close>, as \<^verbatim>\<open>Object.prototype\<close> itself and the \<^verbatim>\<open>{}\<close> that JSON reads back for it.
  \<open>Text\<close> is a string that is not a numeric literal, as results when a number and such a
  member are added. Other strings, booleans and arrays do not occur in these fields.
\<close>

datatype jsvalue = Fin rat | PInf | NInf | NaN | Null | Undefined | Function | Object | Text

subsection \<open>Rounding to a double\<close>

text \<open>
  \<open>fl x\<close> is the double nearest to the rational \<open>x\<close>: 53 significant bits, ties to the even
  significand, the least exponent \<open>-1022\<close> (below it the spacing stays \<open>2\<^sup>-\<^sup>1\<^sup>0\<^sup>7\<^sup>4\<close>), and an
  infinity from \<open>2\<^sup>1\<^sup>0\<^sup>2\<^sup>4\<close> on. \<open>ilog2 x\<close> is the exponent of a positive \<open>x\<close>, the greatest \<open>e\<close>
  with \<open>2\<^sup>e \<le> x\<close>.
\<close>

definition pow2 :: "int \<Rightarrow> rat" where
  "pow2 e = (if 0 \<le> e then 2 ^ nat e else 1 / 2 ^ nat (- e))"

definition ilog2 :: "rat \<Rightarrow> int" where
  "ilog2 x =
     (case quotient_of x of
        (p, q) \<Rightarrow> let d = bitlen p - bitlen q in if pow2 d \<le> x then d else d - 1)"

definition roundHalfEven :: "rat \<Rightarrow> int" where
  "roundHalfEven m =
     (let f = \<lfloor>m\<rfloor>; d = m - of_int f
      in if d < 1 / 2 then f else if 1 / 2 < d then f + 1 else if even f then f else f + 1)"

definition flPos :: "rat \<Rightarrow> jsvalue" where
  "flPos a =
     (let e = max (ilog2 a) (- 1022);
          ulp = pow2 (e - 52);
          y = of_int (roundHalfEven (a / ulp)) * ulp
      in if pow2 1024 \<le> y then PInf else Fin y)"

text \<open>Unary minus, which turns its operand into a number first.\<close>

fun negate :: "jsvalue \<Rightarrow> jsvalue" where
  "negate (Fin v) = Fin (- v)"
| "negate PInf = NInf"
| "negate NInf = PInf"
| "negate Null = Fin 0"
| "negate v = NaN"

definition fl :: "rat \<Rightarrow> jsvalue" where
  "fl x = (if x = 0 then Fin 0 else if 0 < x then flPos x else negate (flPos (- x)))"

subsection \<open>The operators + and *\<close>

text \<open>
  \<^verbatim>\<open>ToNumber\<close>: \<^verbatim>\<open>null\<close> is 0, \<^verbatim>\<open>undefined\<close> is \<^verbatim>\<open>NaN\<close>, and so are a function, such an
  object (its string is \<^verbatim>\<open>[object Object]\<close>) and a string that is not a numeric literal.
\<close>

fun toNumber :: "jsvalue \<Rightarrow> jsvalue" where
  "toNumber (Fin v) = Fin v"
| "toNumber PInf = PInf"
| "toNumber NInf = NInf"
| "toNumber Null = Fin 0"
| "toNumber v = NaN"

text \<open>The sum and the product of two numbers (the last equation: an operand is \<open>NaN\<close>).\<close>

fun plusNumbers :: "jsvalue \<Rightarrow> jsvalue \<Rightarrow> jsvalue" where
  "plusNumbers (Fin a) (Fin b) = fl (a + b)"
| "plusNumbers PInf (Fin b) = PInf"
| "plusNumbers (Fin a) PInf = PInf"
| "plusNumbers PInf PInf = PInf"
| "plusNumbers NInf (Fin b) = NInf"
| "plusNumbers (Fin a) NInf = NInf"
| "plusNumbers NInf NInf = NInf"
| "plusNumbers x y = NaN"

fun timesNumbers :: "jsvalue \<Rightarrow> jsvalue \<Rightarrow> jsvalue" where
  "timesNumbers (Fin a) (Fin b) = fl (a * b)"
| "timesNumbers PInf (Fin b) = (if b = 0 then NaN else if 0 < b then PInf else NInf)"
| "timesNumbers NInf (Fin b) = (if b = 0 then NaN else if 0 < b then NInf else PInf)"
| "timesNumbers (Fin a) PInf = (if a = 0 then NaN else if 0 < a then PInf else NInf)"
| "timesNumbers (Fin a) NInf = (if a = 0 then NaN else if 0 < a then NInf else PInf)"
| "timesNumbers PInf PInf = PInf"
| "timesNumbers NInf NInf = PInf"
| "timesNumbers PInf NInf = NInf"
| "timesNumbers NInf PInf = NInf"
| "timesNumbers x y = NaN"

text \<open>
  \<^verbatim>\<open>x + y\<close> concatenates when an operand is a string or turns into one (a function, an
  object), and the result is then a string that is not a numeric literal; otherwise it adds
  the operands as numbers. \<^verbatim>\<open>x * y\<close> always multiplies them as numbers.
\<close>

definition textual :: "jsvalue \<Rightarrow> bool" where
  "textual v = (v = Function \<or> v = Object \<or> v = Text)"

definition jsPlus :: "jsvalue \<Rightarrow> jsvalue \<Rightarrow> jsvalue" where
  "jsPlus x y = (if textual x \<or> textual y then Text else plusNumbers (toNumber x) (toNumber y))"

definition jsTimes :: "jsvalue \<Rightarrow> jsvalue \<Rightarrow> jsvalue" where
  "jsTimes x y = timesNumbers (toNumber x) (toNumber y)"

text \<open>The literal \<^verbatim>\<open>1.1\<close> is the double nearest to \<open>11 / 10\<close>.\<close>

definition onePointOne :: jsvalue where
  "onePointOne = fl (11 / 10)"

subsection \<open>What JSON keeps\<close>

text \<open>
  \<^verbatim>\<open>JSON.stringify\<close> writes \<^verbatim>\<open>null\<close> for \<^verbatim>\<open>NaN\<close> and the infinities, and leaves out a property
  whose value is \<^verbatim>\<open>undefined\<close> or a function; an object without enumerable own properties is
  written as \<^verbatim>\<open>{}\<close>. \<open>jsonValue v\<close> is what \<^verbatim>\<open>JSON.parse\<close> reads back for a property of value \<open>v\<close>.
\<close>

fun jsonValue :: "jsvalue \<Rightarrow> jsvalue" where
  "jsonValue (Fin v) = Fin v"
| "jsonValue PInf = Null"
| "jsonValue NInf = Null"
| "jsonValue NaN = Null"
| "jsonValue Null = Null"
| "jsonValue Undefined = Undefined"
| "jsonValue Function = Undefined"
| "jsonValue Object = Object"
| "jsonValue Text = Text"

section \<open>The cart and order store (cartStore.js)\<close>

record product =
  prod_id :: string
  prod_name :: string
  prod_price :: jsvalue
  prod_image :: string
  prod_deliveryDate :: "string option"
  prod_shippingCost :: jsvalue

record item =
  item_id :: string
  item_name :: string
  item_price :: jsvalue
  item_image :: string
  item_deliveryDate :: string
  item_shippingCost :: jsvalue
  item_qty :: jsvalue

record order =
  order_id :: string
  datePlaced :: string
  total :: jsvalue
  items :: "item list"

record account =
  u_id :: string
  u_username :: string
  u_email :: string
  u_password :: string

record session =
  s_id :: string
  s_username :: string
  s_email :: string

record favorite =
  fav_product :: product
  favoritedAt :: nat

text \<open>
  The storage, one field per key; the favourites key ends in the user's id. \<open>Stored v\<close> is
  the payload written for \<open>v\<close>, so reading it gives \<open>v\<close> as JSON keeps it.
\<close>

record storage =
  lh_cart_v1 :: "item list cell"
  lh_orders_v1 :: "order list cell"
  lh_users_v1 :: "account list cell"
  lh_session_v1 :: "session cell"
  lh_favorites_v1 :: "string \<Rightarrow> favorite list cell"

definition jsonItem :: "item \<Rightarrow> item" where
  "jsonItem i =
     i\<lparr>item_price := jsonValue (item_price i),
       item_shippingCost := jsonValue (item_shippingCost i),
       item_qty := jsonValue (item_qty i)\<rparr>"

definition jsonOrder :: "order \<Rightarrow> order" where
  "jsonOrder ord = ord\<lparr>total := jsonValue (total ord), items := map jsonItem (items ord)\<rparr>"

definition jsonProduct :: "product \<Rightarrow> product" where
  "jsonProduct p =
     p\<lparr>prod_price := jsonValue (prod_price p),
       prod_shippingCost := jsonValue (prod_shippingCost p)\<rparr>"

definition jsonFavorite :: "favorite \<Rightarrow> favorite" where
  "jsonFavorite f = f\<lparr>fav_product := jsonProduct (fav_product f)\<rparr>"

definition load :: "storage \<Rightarrow> item list" where
  "load st =
     (case lh_cart_v1 st of Stored xs \<Rightarrow> map jsonItem xs | Absent \<Rightarrow> [] | Garbled \<Rightarrow> [])"

definition save :: "item list \<Rightarrow> storage \<Rightarrow> storage" where
  "save xs st = st\<lparr>lh_cart_v1 := Stored xs\<rparr>"

definition getItems :: "storage \<Rightarrow> item list" where
  "getItems st = load st"

definition getTotalCount :: "storage \<Rightarrow> jsvalue" where
  "getTotalCount st = foldl (\<lambda>sum i. jsPlus sum (item_qty i)) (Fin 0) (load st)"

subsection \<open>The quantity argument\<close>

text \<open>
  \<^verbatim>\<open>parseInt(qty, 10) || 1\<close>. The callers pass numbers and the strings of form fields, so
  the argument is an integer number (\<open>QNum n\<close>, the double nearest to \<open>n\<close>), a string, or
  missing; any other value (\<^verbatim>\<open>null\<close>, \<^verbatim>\<open>NaN\<close>, a fraction) is represented by its string form.

  \<^verbatim>\<open>parseInt\<close> turns its argument into a string, skips leading white space, reads an
  optional sign and the longest run of decimal digits, and gives \<^verbatim>\<open>NaN\<close> when there is no
  digit; the digits' value is rounded to a double.
\<close>

datatype qty_arg = QUndefined | QNum int | QStr string

definition isDigit :: "char \<Rightarrow> bool" where
  "isDigit c = (let n = (of_char c :: nat) in 48 \<le> n \<and> n \<le> 57)"

definition digitsValue :: "string \<Rightarrow> nat" where
  "digitsValue ds = foldl (\<lambda>a c. 10 * a + (of_char c - 48)) 0 ds"

definition parseIntStr :: "string \<Rightarrow> jsvalue" where
  "parseIntStr s =
     (let s1 = dropWhile isSpace s;
          neg = (case s1 of [] \<Rightarrow> False | c # _ \<Rightarrow> c = CHR ''-'');
          s2 = (case s1 of [] \<Rightarrow> [] | c # r \<Rightarrow> if c = CHR ''-'' \<or> c = CHR ''+'' then r else s1);
          ds = takeWhile isDigit s2
      in if ds = [] then NaN
         else if neg then negate (fl (of_nat (digitsValue ds))) else fl (of_nat (digitsValue ds)))"

text \<open>
  The string of an integer number below \<open>10\<^sup>2\<^sup>1\<close> in magnitude is a decimal numeral that
  reads back as the number. From \<open>10\<^sup>2\<^sup>1\<close> on the string is in exponent form,
  \<^verbatim>\<open>d.ddd...e+n\<close>, with the fewest digits that still read back as the number, and
  \<^verbatim>\<open>parseInt\<close> reads the one digit before the point: \<^verbatim>\<open>parseInt(1e21, 10)\<close> is 1.
  \<open>leadDigit v\<close> finds that digit for the integer \<open>v\<close>: with \<open>N\<close> the number of decimal
  digits of \<open>v\<close>, it tries for 1 up to 17 digits the two decimals of that many digits next to
  \<open>v\<close> and takes the first that rounds to \<open>v\<close>. The string of an infinity is \<^verbatim>\<open>Infinity\<close>,
  which has no digit.
\<close>

fun declen :: "nat \<Rightarrow> nat" where
  "declen n = (if n < 10 then 1 else 1 + declen (n div 10))"

declare declen.simps [simp del]

definition candidates :: "int \<Rightarrow> nat \<Rightarrow> nat \<Rightarrow> int list" where
  "candidates v N k = (let p = 10 ^ (N - k); s = v div p in [s * p, (s + 1) * p])"

definition leadDigit :: "int \<Rightarrow> int" where
  "leadDigit v =
     (let N = declen (nat v)
      in case find (\<lambda>d. fl (of_int d) = Fin (of_int v)) (concat (map (candidates v N) [1..<18])) of
           Some d \<Rightarrow> if d = 10 ^ N then 1 else d div 10 ^ (N - 1)
         | None \<Rightarrow> v div 10 ^ (N - 1))"

fun parseInt :: "qty_arg \<Rightarrow> jsvalue" where
  "parseInt (QNum n) =
     (case fl (of_int n) of
        Fin v \<Rightarrow>
          if \<bar>v\<bar> < 10 ^ 21 then Fin v
          else if 0 < v then Fin (of_int (leadDigit \<lfloor>v\<rfloor>))
          else Fin (- of_int (leadDigit \<lfloor>- v\<rfloor>))
      | _ \<Rightarrow> NaN)"
| "parseInt (QStr s) = parseIntStr s"
| "parseInt QUndefined = NaN"

text \<open>\<^verbatim>\<open>x || 1\<close>: \<^verbatim>\<open>NaN\<close> and \<^verbatim>\<open>0\<close> are falsy, every other number is kept.\<close>

definition orOne :: "jsvalue \<Rightarrow> jsvalue" where
  "orOne x = (if x = NaN \<or> x = Fin 0 \<or> x = Null \<or> x = Undefined then Fin 1 else x)"

text \<open>The default parameter \<^verbatim>\<open>qty = 1\<close> replaces a missing argument before the body runs.\<close>

fun defaultQty :: "qty_arg \<Rightarrow> qty_arg" where
  "defaultQty QUndefined = QNum 1"
| "defaultQty q = q"

definition coerceQty :: "qty_arg \<Rightarrow> jsvalue" where
  "coerceQty qty = orOne (parseInt qty)"

subsection \<open>addItem, updateQty, removeItem\<close>

text \<open>\<^verbatim>\<open>existing.qty += qty\<close> changes the first line that \<^verbatim>\<open>find\<close> returned, in place.\<close>

fun addToExisting :: "string \<Rightarrow> jsvalue \<Rightarrow> item list \<Rightarrow> item list" where
  "addToExisting pid q [] = []"
| "addToExisting pid q (i # rest) =
     (if item_id i = pid then i\<lparr>item_qty := jsPlus (item_qty i) q\<rparr> # rest
      else i # addToExisting pid q rest)"

text \<open>
  \<^verbatim>\<open>product.deliveryDate || "Monday, March 2"\<close> and \<^verbatim>\<open>product.shippingCost ?? 0\<close>: the first
  default replaces a missing or empty date, the second a cost that is \<^verbatim>\<open>null\<close> or
  \<^verbatim>\<open>undefined\<close>.
\<close>

definition newLine :: "product \<Rightarrow> jsvalue \<Rightarrow> item" where
  "newLine p q =
     \<lparr>item_id = prod_id p, item_name = prod_name p, item_price = prod_price p,
      item_image = prod_image p,
      item_deliveryDate =
        (case prod_deliveryDate p of None \<Rightarrow> ''Monday, March 2''
         | Some d \<Rightarrow> if d = [] then ''Monday, March 2'' else d),
      item_shippingCost =
        (if prod_shippingCost p = Null \<or> prod_shippingCost p = Undefined then Fin 0
         else prod_shippingCost p),
      item_qty = q\<rparr>"

definition addItem :: "product \<Rightarrow> qty_arg \<Rightarrow> storage \<Rightarrow> storage" where
  "addItem p qty0 st =
     (let qty = coerceQty (defaultQty qty0);
          xs = load st
      in case find (\<lambda>i. item_id i = prod_id p) xs of
           Some existing \<Rightarrow> save (addToExisting (prod_id p) qty xs) st
         | None \<Rightarrow> save (xs @ [newLine p qty]) st)"

definition updateQty :: "string \<Rightarrow> qty_arg \<Rightarrow> storage \<Rightarrow> storage" where
  "updateQty pid qty0 st =
     (let qty = coerceQty qty0
      in save (map (\<lambda>i. if item_id i = pid then i\<lparr>item_qty := qty\<rparr> else i) (load st)) st)"

definition removeItem :: "string \<Rightarrow> storage \<Rightarrow> storage" where
  "removeItem pid st = save (filter (\<lambda>i. item_id i \<noteq> pid) (load st)) st"

subsection \<open>placeOrder, clear, getOrders\<close>

text \<open>
  What \<^verbatim>\<open>placeOrder\<close> takes from its surroundings: the numbers drawn by
  \<^verbatim>\<open>Math.floor(Math.random() * 16)\<close>, in the order of the calls (each below 16, so
  \<open>hexChar\<close> reads them modulo 16), and today's month and day.
\<close>

record env =
  draws :: "nat \<Rightarrow> nat"
  getMonth :: nat
  getDate :: nat

definition hexChar :: "nat \<Rightarrow> char" where
  "hexChar d = ''0123456789abcdef'' ! (d mod 16)"

fun replaceX :: "(nat \<Rightarrow> nat) \<Rightarrow> nat \<Rightarrow> string \<Rightarrow> string" where
  "replaceX rnd k [] = []"
| "replaceX rnd k (c # cs) =
     (if c = CHR ''x'' then hexChar (rnd k) # replaceX rnd (Suc k) cs
      else c # replaceX rnd k cs)"

definition months :: "string list" where
  "months = [''January'', ''February'', ''March'', ''April'', ''May'', ''June'',
             ''July'', ''August'', ''September'', ''October'', ''November'', ''December'']"

definition dateLabel :: "env \<Rightarrow> string" where
  "dateLabel e =
     (if getMonth e < length months then months ! getMonth e else ''undefined'')
       @ '' '' @ showNat (getDate e)"

text \<open>
  The overrides are a plain object: \<open>deliveryOverrides\<close> gives its own properties, and
  \<^verbatim>\<open>deliveryOverrides[id]\<close> finds, for an id that is no own property, the member of that name
  inherited from \<^verbatim>\<open>Object.prototype\<close> when there is one: \<^verbatim>\<open>__proto__\<close> is the prototype object
  itself, the others are functions.
\<close>

definition prototypeFunctions :: "string list" where
  "prototypeFunctions =
     [''constructor'', ''hasOwnProperty'', ''isPrototypeOf'', ''propertyIsEnumerable'',
      ''toLocaleString'', ''toString'', ''valueOf'', ''__defineGetter__'', ''__defineSetter__'',
      ''__lookupGetter__'', ''__lookupSetter__'']"

definition getProperty :: "(string \<rightharpoonup> jsvalue) \<Rightarrow> string \<Rightarrow> jsvalue" where
  "getProperty obj k =
     (case obj k of
        Some v \<Rightarrow> v
      | None \<Rightarrow>
          if k = ''__proto__'' then Object
          else if k \<in> set prototypeFunctions then Function
          else Undefined)"

text \<open>The shipping cost that counts for a line: the override for its id when there is one.\<close>

definition shipping :: "(string \<rightharpoonup> jsvalue) \<Rightarrow> item \<Rightarrow> jsvalue" where
  "shipping deliveryOverrides i =
     (if getProperty deliveryOverrides (item_id i) \<noteq> Undefined
      then getProperty deliveryOverrides (item_id i)
      else item_shippingCost i)"

definition subtotal :: "(string \<rightharpoonup> jsvalue) \<Rightarrow> item list \<Rightarrow> jsvalue" where
  "subtotal deliveryOverrides xs =
     foldl (\<lambda>sum i. jsPlus (jsPlus sum (jsTimes (item_price i) (item_qty i)))
                           (shipping deliveryOverrides i))
           (Fin 0) xs"

definition makeOrder :: "env \<Rightarrow> (string \<rightharpoonup> jsvalue) \<Rightarrow> item list \<Rightarrow> order" where
  "makeOrder e deliveryOverrides xs =
     \<lparr>order_id = replaceX (draws e) 0 ''xxxx-xxxx-xxxx-xxxx'',
      datePlaced = dateLabel e,
      total = jsTimes (subtotal deliveryOverrides xs) onePointOne,
      items = map (\<lambda>i. i\<lparr>item_shippingCost := shipping deliveryOverrides i\<rparr>) xs\<rparr>"

text \<open>
  The write of the order sits in one \<^verbatim>\<open>try\<close> block together with the parse of the stored
  history: when the parse throws, the block is left before \<^verbatim>\<open>setItem\<close> and the history
  stays as it was.
\<close>

definition unshiftOrder :: "order \<Rightarrow> storage \<Rightarrow> storage" where
  "unshiftOrder ord st =
     (case lh_orders_v1 st of
        Absent \<Rightarrow> st\<lparr>lh_orders_v1 := Stored [ord]\<rparr>
      | Stored os \<Rightarrow> st\<lparr>lh_orders_v1 := Stored (ord # map jsonOrder os)\<rparr>
      | Garbled \<Rightarrow> st)"

definition placeOrder :: "env \<Rightarrow> (string \<rightharpoonup> jsvalue) \<Rightarrow> storage \<Rightarrow> storage" where
  "placeOrder e deliveryOverrides st =
     (let xs = load st
      in if xs = [] then st
         else save [] (unshiftOrder (makeOrder e deliveryOverrides xs) st))"

definition clear :: "storage \<Rightarrow> storage" where
  "clear st = save [] st"

definition getOrders :: "storage \<Rightarrow> order list" where
  "getOrders st =
     (case lh_orders_v1 st of Stored os \<Rightarrow> map jsonOrder os | Absent \<Rightarrow> [] | Garbled \<Rightarrow> [])"

text \<open>
  The order page's reset button (Orders.jsx, \<^verbatim>\<open>handleConfirmClear\<close>) removes the history
  key itself.
\<close>

definition handleConfirmClear :: "storage \<Rightarrow> storage" where
  "handleConfirmClear st = st\<lparr>lh_orders_v1 := Absent\<rparr>"

section \<open>The account and session store (authStore.js)\<close>

text \<open>
  The store returns \<^verbatim>\<open>{ success: false, error: message }\<close> on failure; the messages are
  the constructors below, together with those of the profile page's password form. The
  spec's names for them: \<open>AllFieldsRequired\<close>, \<open>FillAllFields\<close>, \<open>NewPasswordTooShort\<close> and
  \<open>PasswordsDoNotMatch\<close> are validation errors, \<open>EmailTaken\<close> and \<open>UsernameTaken\<close> are
  conflict errors, \<open>NoAccountFound\<close> is the not-found error, \<open>IncorrectPassword\<close> and
  \<open>CurrentPasswordIncorrect\<close> are auth errors. \<open>SyntaxError\<close> is the exception of a
  \<^verbatim>\<open>JSON.parse\<close> that no handler catches.
\<close>

datatype error =
    AllFieldsRequired | EmailTaken | UsernameTaken
  | FillAllFields | NoAccountFound | IncorrectPassword
  | NewPasswordTooShort | PasswordsDoNotMatch | CurrentPasswordIncorrect
  | SyntaxError

fun message :: "error \<Rightarrow> string" where
  "message AllFieldsRequired = ''All fields are required.''"
| "message EmailTaken = ''An account with this email already exists.''"
| "message UsernameTaken = ''This username is already taken.''"
| "message FillAllFields = ''Please fill in all fields.''"
| "message NoAccountFound = ''No account found with that email or username.''"
| "message IncorrectPassword = ''Incorrect password. Please try again.''"
| "message NewPasswordTooShort = ''New password must be at least 6 characters.''"
| "message PasswordsDoNotMatch = ''Passwords do not match.''"
| "message CurrentPasswordIncorrect = ''Current password is incorrect.''"
| "message SyntaxError = ''SyntaxError''"

definition loadUsers :: "storage \<Rightarrow> account list" where
  "loadUsers st = (case lh_users_v1 st of Stored us \<Rightarrow> us | Absent \<Rightarrow> [] | Garbled \<Rightarrow> [])"

definition saveUsers :: "account list \<Rightarrow> storage \<Rightarrow> storage" where
  "saveUsers us st = st\<lparr>lh_users_v1 := Stored us\<rparr>"

definition loadSession :: "storage \<Rightarrow> session option" where
  "loadSession st =
     (case lh_session_v1 st of Stored s \<Rightarrow> Some s | Absent \<Rightarrow> None | Garbled \<Rightarrow> None)"

definition saveSession :: "account \<Rightarrow> storage \<Rightarrow> storage" where
  "saveSession user st =
     st\<lparr>lh_session_v1 :=
          Stored \<lparr>s_id = u_id user, s_username = u_username user, s_email = u_email user\<rparr>\<rparr>"

definition getCurrentUser :: "storage \<Rightarrow> session option" where
  "getCurrentUser st = loadSession st"

definition isLoggedIn :: "storage \<Rightarrow> bool" where
  "isLoggedIn st = (loadSession st \<noteq> None)"

text \<open>\<open>now\<close> is the value of \<^verbatim>\<open>Date.now()\<close> at the call.\<close>

definition register ::
  "nat \<Rightarrow> string \<Rightarrow> string \<Rightarrow> string \<Rightarrow> storage \<Rightarrow> (error + account) \<times> storage" where
  "register now username email password st =
     (if username = [] \<or> email = [] \<or> password = [] then (Inl AllFieldsRequired, st)
      else
        let users = loadUsers st;
            emailTaken = list_ex (\<lambda>u. toLowerCase (u_email u) = toLowerCase email) users
        in if emailTaken then (Inl EmailTaken, st)
           else
             let usernameTaken =
                   list_ex (\<lambda>u. toLowerCase (u_username u) = toLowerCase username) users
             in if usernameTaken then (Inl UsernameTaken, st)
                else
                  let newUser =
                        \<lparr>u_id = ''user-'' @ showNat now, u_username = trim username,
                         u_email = toLowerCase (trim email), u_password = password\<rparr>
                  in (Inr newUser, saveSession newUser (saveUsers (users @ [newUser]) st)))"

definition login :: "string \<Rightarrow> string \<Rightarrow> storage \<Rightarrow> (error + account) \<times> storage" where
  "login identifier password st =
     (if identifier = [] \<or> password = [] then (Inl FillAllFields, st)
      else
        case find (\<lambda>u. u_email u = toLowerCase identifier
                       \<or> toLowerCase (u_username u) = toLowerCase identifier)
                  (loadUsers st) of
          None \<Rightarrow> (Inl NoAccountFound, st)
        | Some user \<Rightarrow>
            if u_password user \<noteq> password then (Inl IncorrectPassword, st)
            else (Inr user, saveSession user st))"

definition logout :: "storage \<Rightarrow> storage" where
  "logout st = st\<lparr>lh_session_v1 := Absent\<rparr>"

text \<open>
  Every account's e-mail address and user name occurs once, letter case aside.
\<close>

definition uniqueAccounts :: "account list \<Rightarrow> bool" where
  "uniqueAccounts us =
     (distinct (map (\<lambda>u. toLowerCase (u_email u)) us)
      \<and> distinct (map (\<lambda>u. toLowerCase (u_username u)) us))"

subsection \<open>The profile page's password form (Profile.jsx)\<close>

text \<open>
  \<^verbatim>\<open>handleChangePassword\<close> reads and writes the account list itself. \<open>user\<close> is the session
  the page read when it was opened. Its \<^verbatim>\<open>JSON.parse\<close> of the stored list (or of \<^verbatim>\<open>"[]"\<close>
  when the key is absent) has no handler.
\<close>

definition parseUsers :: "storage \<Rightarrow> error + account list" where
  "parseUsers st =
     (case lh_users_v1 st of
        Absent \<Rightarrow> Inr [] | Stored us \<Rightarrow> Inr us | Garbled \<Rightarrow> Inl SyntaxError)"

definition changePassword :: "string \<Rightarrow> string \<Rightarrow> account list \<Rightarrow> account list" where
  "changePassword uid newPw users =
     map (\<lambda>u. if u_id u = uid then u\<lparr>u_password := newPw\<rparr> else u) users"

definition handleChangePassword ::
  "session \<Rightarrow> string \<Rightarrow> string \<Rightarrow> string \<Rightarrow> storage \<Rightarrow> error option \<times> storage" where
  "handleChangePassword user currentPw newPw confirmPw st =
     (if length newPw < 6 then (Some NewPasswordTooShort, st)
      else if newPw \<noteq> confirmPw then (Some PasswordsDoNotMatch, st)
      else
        case parseUsers st of
          Inl e \<Rightarrow> (Some e, st)
        | Inr users \<Rightarrow>
            (case find (\<lambda>u. u_id u = s_id user) users of
               None \<Rightarrow> (Some CurrentPasswordIncorrect, st)
             | Some stored \<Rightarrow>
                 if u_password stored \<noteq> currentPw then (Some CurrentPasswordIncorrect, st)
                 else (None, st\<lparr>lh_users_v1 := Stored (changePassword (s_id user) newPw users)\<rparr>)))"

section \<open>The favourites store (favoritesStore.js)\<close>

text \<open>
  The key is \<^verbatim>\<open>lh_favorites_v1_\<close> followed by the session's id, and there is none without a
  session. \<open>now\<close> is \<^verbatim>\<open>Date.now()\<close>.
\<close>

definition getFavKey :: "storage \<Rightarrow> string option" where
  "getFavKey st = (case getCurrentUser st of Some user \<Rightarrow> Some (s_id user) | None \<Rightarrow> None)"

definition loadFavorites :: "storage \<Rightarrow> favorite list" where
  "loadFavorites st =
     (case getFavKey st of
        None \<Rightarrow> []
      | Some k \<Rightarrow>
          (case lh_favorites_v1 st k of
             Stored xs \<Rightarrow> map jsonFavorite xs | Absent \<Rightarrow> [] | Garbled \<Rightarrow> []))"

definition saveFavorites :: "favorite list \<Rightarrow> storage \<Rightarrow> storage" where
  "saveFavorites xs st =
     (case getFavKey st of
        None \<Rightarrow> st
      | Some k \<Rightarrow> st\<lparr>lh_favorites_v1 := (lh_favorites_v1 st)(k := Stored xs)\<rparr>)"

definition getItems_fav :: "storage \<Rightarrow> favorite list" where
  "getItems_fav st = loadFavorites st"

definition getCount :: "storage \<Rightarrow> nat" where
  "getCount st = length (loadFavorites st)"

definition isFavorited :: "string \<Rightarrow> storage \<Rightarrow> bool" where
  "isFavorited productId st = list_ex (\<lambda>i. prod_id (fav_product i) = productId) (loadFavorites st)"

definition addItem_fav :: "product \<Rightarrow> nat \<Rightarrow> storage \<Rightarrow> storage" where
  "addItem_fav p now st =
     (let xs = loadFavorites st
      in if list_ex (\<lambda>i. prod_id (fav_product i) = prod_id p) xs then st
         else saveFavorites (xs @ [\<lparr>fav_product = p, favoritedAt = now\<rparr>]) st)"

definition removeItem_fav :: "string \<Rightarrow> storage \<Rightarrow> storage" where
  "removeItem_fav pid st =
     saveFavorites (filter (\<lambda>i. prod_id (fav_product i) \<noteq> pid) (loadFavorites st)) st"

definition toggle :: "product \<Rightarrow> nat \<Rightarrow> storage \<Rightarrow> bool \<times> storage" where
  "toggle p now st =
     (let xs = loadFavorites st;
          exists = list_ex (\<lambda>i. prod_id (fav_product i) = prod_id p) xs
      in if exists
         then (False, saveFavorites (filter (\<lambda>i. prod_id (fav_product i) \<noteq> prod_id p) xs) st)
         else (True, saveFavorites (xs @ [\<lparr>fav_product = p, favoritedAt = now\<rparr>]) st))"

definition clear_fav :: "storage \<Rightarrow> storage" where
  "clear_fav st = saveFavorites [] st"

section \<open>The theme module (useTheme.js)\<close>

text \<open>
  The module's state: the theme key of the storage, the module variable \<^verbatim>\<open>_isDark\<close> and
  the \<^verbatim>\<open>data-theme\<close> attribute of the document. Subscribed components only mirror
  \<^verbatim>\<open>_isDark\<close> and are left out.
\<close>

record theme =
  lh_theme_v1 :: "string option"
  isDark :: bool
  data_theme :: "string option"

text \<open>\<open>prefersDark\<close> is what the media query \<^verbatim>\<open>(prefers-color-scheme: dark)\<close> matches.\<close>

definition resolveInitialTheme :: "string option \<Rightarrow> bool \<Rightarrow> bool" where
  "resolveInitialTheme stored prefersDark =
     (if stored = Some ''dark'' then True
      else if stored = Some ''light'' then False
      else prefersDark)"

definition applyTheme :: "bool \<Rightarrow> theme \<Rightarrow> theme" where
  "applyTheme dark t =
     t\<lparr>data_theme := Some (if dark then ''dark'' else ''light''),
       lh_theme_v1 := Some (if dark then ''dark'' else ''light''),
       isDark := dark\<rparr>"

text \<open>
  Loading the module: \<^verbatim>\<open>_isDark = resolveInitialTheme()\<close>, then \<^verbatim>\<open>applyTheme(_isDark)\<close>
  at once.
\<close>

definition moduleLoad :: "string option \<Rightarrow> bool \<Rightarrow> theme" where
  "moduleLoad stored prefersDark =
     applyTheme (resolveInitialTheme stored prefersDark)
       \<lparr>lh_theme_v1 = stored, isDark = resolveInitialTheme stored prefersDark,
        data_theme = None\<rparr>"

text \<open>The listener for a change of the system's preference; \<open>matches\<close> is the new value.\<close>

definition onSystemChange :: "bool \<Rightarrow> theme \<Rightarrow> theme" where
  "onSystemChange matches t =
     (let hasManualChoice = (case lh_theme_v1 t of None \<Rightarrow> False | Some s \<Rightarrow> s \<noteq> [])
      in if \<not> hasManualChoice then applyTheme matches t else t)"

definition toggleTheme :: "theme \<Rightarrow> theme" where
  "toggleTheme t = applyTheme (\<not> isDark t) t"

section \<open>Sample data\<close>

definition emptyStorage :: storage where
  "emptyStorage =
     \<lparr>lh_cart_v1 = Absent, lh_orders_v1 = Absent, lh_users_v1 = Absent,
      lh_session_v1 = Absent, lh_favorites_v1 = (\<lambda>k. Absent)\<rparr>"

definition scarf :: product where
  "scarf = \<lparr>prod_id = ''p1'', prod_name = ''Silk scarf'', prod_price = Fin 10,
            prod_image = ''scarf.png'', prod_deliveryDate = None, prod_shippingCost = Fin 5\<rparr>"

definition today :: env where
  "today = \<lparr>draws = (\<lambda>k. k), getMonth = 10, getDate = 2\<rparr>"

text \<open>
  A cart of two scarves over a history whose payload does not parse, and the same cart over
  a history of one earlier order.
\<close>

definition cartOfScarves :: "item list" where
  "cartOfScarves = [newLine scarf (Fin 2)]"


definition garbledHistory :: storage where
  "garbledHistory = emptyStorage\<lparr>lh_cart_v1 := Stored cartOfScarves, lh_orders_v1 := Garbled\<rparr>"

definition earlierOrder :: order where
  "earlierOrder = \<lparr>order_id = ''0000-0000-0000-0000'', datePlaced = ''October 31'',
                    total = Fin 11, items = [newLine scarf (Fin 1)]\<rparr>"

definition oneOrder :: storage where
  "oneOrder = emptyStorage\<lparr>lh_cart_v1 := Stored cartOfScarves, lh_orders_v1 := Stored [earlierOrder]\<rparr>"

text \<open>Two accounts, the first of them logged in.\<close>

definition aminaAccount :: account where
  "aminaAccount = \<lparr>u_id = ''user-1'', u_username = ''amina'', u_email = ''a@x.com'',
                    u_password = ''secret1''\<rparr>"

definition bobAccount :: account where
  "bobAccount = \<lparr>u_id = ''user-2'', u_username = ''bob'', u_email = ''b@x.com'',
                  u_password = ''hunter22''\<rparr>"

definition aminaSession :: session where
  "aminaSession = \<lparr>s_id = ''user-1'', s_username = ''amina'', s_email = ''a@x.com''\<rparr>"

definition aminaOnly :: storage where
  "aminaOnly = emptyStorage\<lparr>lh_users_v1 := Stored [aminaAccount],
                            lh_session_v1 := Stored aminaSession\<rparr>"

definition twoAccounts :: storage where
  "twoAccounts = emptyStorage\<lparr>lh_users_v1 := Stored [aminaAccount, bobAccount],
                              lh_session_v1 := Stored aminaSession\<rparr>"

text \<open>The first account logged in, with the scarf among its favourites.\<close>

definition scarfFavorited :: storage where
  "scarfFavorited =
     aminaOnly\<lparr>lh_favorites_v1 :=
                 (\<lambda>k. Absent)(''user-1'' := Stored [\<lparr>fav_product = scarf, favoritedAt = 4\<rparr>])\<rparr>"

section \<open>Doubles\<close>

subsection \<open>Integers below \<open>2\<^sup>5\<^sup>3\<close> are doubles\<close>

lemma bitlen_1: "bitlen 1 = 1"
  by (simp add: bitlen_alt_def)

lemma bitlen_pos: "0 < n \<Longrightarrow> 1 \<le> bitlen n"
  using bitlen_eq_zero_iff [of n] bitlen_nonneg [of n] by linarith

lemma ilog2_of_int:
  assumes n: "0 < n"
  shows "ilog2 (of_int n) = bitlen n - 1"
proof -
  from bitlen_bounds [OF n] have "2 ^ nat (bitlen n - 1) \<le> n" by simp
  then have "(of_int (2 ^ nat (bitlen n - 1)) :: rat) \<le> of_int n" by (simp only: of_int_le_iff)
  then have "(2 ^ nat (bitlen n - 1) :: rat) \<le> of_int n" by simp
  with bitlen_pos [OF n] show ?thesis
    by (simp add: ilog2_def pow2_def Let_def bitlen_1)
qed

lemma roundHalfEven_of_int: "roundHalfEven (of_int k) = k"
  by (simp add: roundHalfEven_def)

lemma flPos_of_int:
  assumes a: "0 < a" "a < 2 ^ 53"
  shows "flPos (of_int a) = Fin (of_int a)"
proof -
  define e where "e = bitlen a - 1"
  have e0: "0 \<le> e" using bitlen_pos [OF a(1)] by (simp add: e_def)
  have "bitlen a \<le> 53" using a by (simp add: bitlen_le_iff_power)
  then have e52: "e \<le> 52" by (simp add: e_def)
  have il: "ilog2 (of_int a) = e"
    using ilog2_of_int [OF a(1)] by (simp add: e_def)
  have mx: "max e (- 1022) = e" using e0 by simp
  have u: "pow2 (e - 52) = 1 / 2 ^ nat (52 - e)"
    using e52 by (cases "e = 52") (simp_all add: pow2_def)
  have m: "(of_int a :: rat) / pow2 (e - 52) = of_int (a * 2 ^ nat (52 - e))"
    by (simp add: u)
  have y: "(of_int (a * 2 ^ nat (52 - e)) :: rat) * pow2 (e - 52) = of_int a"
    by (simp add: u)
  have big: "\<not> pow2 1024 \<le> (of_int a :: rat)"
  proof -
    have "(of_int a :: rat) < of_int (2 ^ 53)" using a(2) by (simp only: of_int_less_iff)
    moreover have "(of_int (2 ^ 53) :: rat) \<le> pow2 1024" by (simp add: pow2_def)
    ultimately show ?thesis by simp
  qed
  show ?thesis
    unfolding flPos_def Let_def il mx m roundHalfEven_of_int y using big by simp
qed

lemma fl_of_int:
  assumes "\<bar>n\<bar> < 2 ^ 53"
  shows "fl (of_int n) = Fin (of_int n)"
proof -
  consider "n = 0" | "0 < n" | "n < 0" by linarith
  then show ?thesis
  proof cases
    case 1
    then show ?thesis by (simp add: fl_def)
  next
    case 2
    with assms have "flPos (of_int n) = Fin (of_int n)" by (intro flPos_of_int) simp_all
    with 2 show ?thesis by (simp add: fl_def)
  next
    case 3
    with assms have "flPos (of_int (- n)) = Fin (of_int (- n))" by (intro flPos_of_int) simp_all
    with 3 show ?thesis by (simp add: fl_def)
  qed
qed

lemma jsPlus_ints:
  "\<bar>a + b\<bar> < 2 ^ 53 \<Longrightarrow> jsPlus (Fin (of_int a)) (Fin (of_int b)) = Fin (of_int (a + b))"
  using fl_of_int [of "a + b"] by (simp add: jsPlus_def textual_def)

lemma parseInt_safe:
  assumes "\<bar>n\<bar> < 2 ^ 53"
  shows "parseInt (QNum n) = Fin (of_int n)"
proof -
  have "\<bar>n\<bar> < 10 ^ 21" using assms by simp
  then have "\<bar>of_int n :: rat\<bar> < of_int (10 ^ 21)"
    by (simp only: of_int_abs [symmetric] of_int_less_iff)
  then show ?thesis by (simp add: fl_of_int [OF assms] del: of_int_power of_int_numeral)
qed

lemma coerceQty_safe:
  "n \<noteq> 0 \<Longrightarrow> \<bar>n\<bar> < 2 ^ 53 \<Longrightarrow> coerceQty (QNum n) = Fin (of_int n)"
  by (simp add: coerceQty_def orOne_def parseInt_safe del: parseInt.simps)

subsection \<open>Rounding a given number\<close>

text \<open>
  To round a positive \<open>a\<close> it is enough to know its exponent and the rounded significand.
\<close>

lemma flPos_eval:
  assumes "ilog2 a = e" and "- 1022 \<le> e" and "roundHalfEven (a / pow2 (e - 52)) = r"
    and "of_int r * pow2 (e - 52) = y" and "y < pow2 1024"
  shows "flPos a = Fin y"
  using assms by (simp add: flPos_def Let_def max_def)

lemma onePointOne_value: "onePointOne = Fin (4953959590107546 / 2 ^ 52)"
proof -
  have "flPos (11 / 10) = Fin (4953959590107546 / 2 ^ 52)"
  proof (rule flPos_eval [where e = 0 and r = 4953959590107546])
    show "ilog2 (11 / 10) = 0" by code_simp
    show "roundHalfEven (11 / 10 / pow2 (0 - 52)) = 4953959590107546" by code_simp
    show "of_int 4953959590107546 * pow2 (0 - 52) = (4953959590107546 / 2 ^ 52 :: rat)"
      by (simp add: pow2_def)
    show "(4953959590107546 / 2 ^ 52 :: rat) < pow2 1024" by (simp add: pow2_def)
  qed simp
  then show ?thesis by (simp add: onePointOne_def fl_def)
qed

text \<open>\<open>25 * 1.1\<close> is the double that prints as \<^verbatim>\<open>27.500000000000004\<close>, not \<open>55 / 2\<close>.\<close>

lemma twentyfive_times_onePointOne:
  "jsTimes (Fin 25) onePointOne = Fin (7740561859543041 / 2 ^ 48)"
proof -
  have "flPos (25 * (4953959590107546 / 2 ^ 52)) = Fin (7740561859543041 / 2 ^ 48)"
  proof (rule flPos_eval [where e = 4 and r = 7740561859543041])
    show "ilog2 (25 * (4953959590107546 / 2 ^ 52)) = 4" by code_simp
    show "roundHalfEven (25 * (4953959590107546 / 2 ^ 52) / pow2 (4 - 52)) = 7740561859543041"
      by code_simp
    show "of_int 7740561859543041 * pow2 (4 - 52) = (7740561859543041 / 2 ^ 48 :: rat)"
      by (simp add: pow2_def)
    show "(7740561859543041 / 2 ^ 48 :: rat) < pow2 1024" by (simp add: pow2_def)
  qed simp
  then show ?thesis by (simp add: jsTimes_def onePointOne_value fl_def)
qed






text \<open>
  The double nearest to \<open>10\<^sup>2\<^sup>3\<close> lies below it, and its string is still \<^verbatim>\<open>1e+23\<close>, the
  shortest that reads back as it: \<^verbatim>\<open>parseInt(1e23, 10)\<close> is 1 as well.
\<close>

lemma fl_ten23: "fl (of_int (10 ^ 23)) = Fin (of_int 99999999999999991611392)"
proof -
  have "flPos (10 ^ 23) = Fin 99999999999999991611392"
  proof (rule flPos_eval [where e = 76 and r = 5960464477539062])
    show "ilog2 (10 ^ 23) = 76" by code_simp
    show "roundHalfEven (10 ^ 23 / pow2 (76 - 52)) = 5960464477539062" by code_simp
    show "of_int 5960464477539062 * pow2 (76 - 52) = (99999999999999991611392 :: rat)"
      by (simp add: pow2_def)
    show "(99999999999999991611392 :: rat) < pow2 1024" by (simp add: pow2_def)
  qed simp
  then show ?thesis by (simp add: fl_def)
qed

lemma fl_nine22: "fl (of_int (9 * 10 ^ 22)) = Fin (of_int 89999999999999995805696)"
proof -
  have "flPos (9 * 10 ^ 22) = Fin 89999999999999995805696"
  proof (rule flPos_eval [where e = 76 and r = 5364418029785156])
    show "ilog2 (9 * 10 ^ 22) = 76" by code_simp
    show "roundHalfEven (9 * 10 ^ 22 / pow2 (76 - 52)) = 5364418029785156" by code_simp
    show "of_int 5364418029785156 * pow2 (76 - 52) = (89999999999999995805696 :: rat)"
      by (simp add: pow2_def)
    show "(89999999999999995805696 :: rat) < pow2 1024" by (simp add: pow2_def)
  qed simp
  then show ?thesis by (simp add: fl_def)
qed

lemma declen_ten23: "declen (nat 99999999999999991611392) = 23"
  by (simp add: declen.simps)

lemma candidates_ten23:
  "candidates 99999999999999991611392 23 1 = [9 * 10 ^ 22, 10 ^ 23]"
  by (simp add: candidates_def)

lemma leadDigit_ten23: "leadDigit 99999999999999991611392 = 1"
proof -
  have "[1..<18] = 1 # [2..<18]"
    by (simp add: upt_conv_Cons)
  then have "concat (map (candidates 99999999999999991611392 23) [1..<18])
        = 9 * 10 ^ 22 # 10 ^ 23 # concat (map (candidates 99999999999999991611392 23) [2..<18])"
    by (simp only: list.map concat.simps candidates_ten23 append.simps)
  moreover have "fl (of_int (9 * 10 ^ 22)) \<noteq> Fin (of_int 99999999999999991611392)"
    by (simp only: fl_nine22) simp
  moreover have "fl (of_int (10 ^ 23)) = Fin (of_int 99999999999999991611392)"
    by (rule fl_ten23)
  ultimately have "find (\<lambda>d. fl (of_int d) = Fin (of_int 99999999999999991611392))
               (concat (map (candidates 99999999999999991611392 23) [1..<18])) = Some (10 ^ 23)"
    by (simp only: find.simps refl if_True if_False)
  then show ?thesis
    unfolding leadDigit_def Let_def declen_ten23 by (simp only: option.case) simp
qed

lemma parseInt_ten23: "parseInt (QNum (10 ^ 23)) = Fin 1"
proof -
  have "\<not> \<bar>of_int 99999999999999991611392 :: rat\<bar> < 10 ^ 21" by simp
  moreover have "(0 :: rat) < of_int 99999999999999991611392" by simp
  moreover have "\<lfloor>of_int 99999999999999991611392 :: rat\<rfloor> = 99999999999999991611392"
    by (simp only: floor_of_int)
  ultimately show ?thesis
    by (simp only: parseInt.simps fl_ten23 jsvalue.case if_False if_True leadDigit_ten23) simp
qed

text \<open>Above \<open>2\<^sup>5\<^sup>3\<close> a sum is rounded: \<open>2\<^sup>5\<^sup>3 + 1\<close> is \<open>2\<^sup>5\<^sup>3\<close> again.\<close>

lemma jsPlus_above_safe: "jsPlus (Fin (2 ^ 53)) (Fin 1) = Fin (2 ^ 53)"
proof -
  have "flPos (2 ^ 53 + 1) = Fin (2 ^ 53)"
  proof (rule flPos_eval [where e = 53 and r = "2 ^ 52"])
    show "ilog2 (2 ^ 53 + 1) = 53" by code_simp
    show "roundHalfEven ((2 ^ 53 + 1) / pow2 (53 - 52)) = 2 ^ 52" by code_simp
    show "of_int (2 ^ 52) * pow2 (53 - 52) = (2 ^ 53 :: rat)" by (simp add: pow2_def)
    show "(2 ^ 53 :: rat) < pow2 1024" by (simp add: pow2_def)
  qed simp
  then show ?thesis by (simp add: jsPlus_def textual_def fl_def)
qed

subsection \<open>JSON keeps what it has kept\<close>

lemma jsonValue_idem: "jsonValue (jsonValue v) = jsonValue v"
  by (cases v) simp_all

lemma jsonItem_idem: "jsonItem (jsonItem i) = jsonItem i"
  by (simp add: jsonItem_def jsonValue_idem)

lemma jsonOrder_idem: "jsonOrder (jsonOrder ord) = jsonOrder ord"
  by (simp add: jsonOrder_def jsonValue_idem jsonItem_idem)




section \<open>The cart\<close>

lemma load_save: "load (save xs st) = map jsonItem xs"
  by (simp add: load_def save_def)

lemma load_json: "map jsonItem (load st) = load st"
  by (simp add: load_def jsonItem_idem split: cell.splits)





lemma load_addItem:
  "load (addItem p qty st) =
     map jsonItem
       (case find (\<lambda>i. item_id i = prod_id p) (load st) of
          Some existing \<Rightarrow> addToExisting (prod_id p) (coerceQty (defaultQty qty)) (load st)
        | None \<Rightarrow> load st @ [newLine p (coerceQty (defaultQty qty))])"
  by (simp add: addItem_def Let_def load_save split: option.splits)




lemma load_unshiftOrder: "load (unshiftOrder ord st) = load st"
  by (simp add: unshiftOrder_def load_def split: cell.splits)

lemma load_placeOrder: "load (placeOrder e ov st) = []"
  by (simp add: placeOrder_def Let_def load_save)













text \<open>
  Claim C8. The quantity that \<open>addItem\<close> adds should be a positive integer whatever the
  argument. A negative number passes \<^verbatim>\<open>parseInt(qty, 10) || 1\<close> unchanged: adding \<open>-3\<close> of a
  product to the empty cart leaves a line of quantity \<open>-3\<close>, and so does the string \<open>-3\<close>.
\<close>

theorem addItem_negative_qty:
  "map item_qty (load (addItem scarf (QNum (- 3)) emptyStorage)) = [Fin (- 3)]
   \<and> map item_qty (load (addItem scarf (QStr ''-3'') emptyStorage)) = [Fin (- 3)]"
proof -
  have n: "coerceQty (QNum (- 3)) = Fin (- 3)"
    using coerceQty_safe [of "- 3"] by simp
  have "fl 3 = Fin 3" using fl_of_int [of 3] by simp
  then have s: "coerceQty (QStr ''-3'') = Fin (- 3)"
    by (simp add: coerceQty_def orOne_def parseIntStr_def isSpace_def isDigit_def digitsValue_def)
  have l0: "load emptyStorage = []"
    by (simp add: emptyStorage_def load_def)
  have "load (addItem scarf (QNum (- 3)) emptyStorage) = [newLine scarf (Fin (- 3))]"
    by (subst load_addItem) (simp add: l0 n jsonItem_def newLine_def scarf_def del: parseInt.simps)
  moreover have "load (addItem scarf (QStr ''-3'') emptyStorage) = [newLine scarf (Fin (- 3))]"
    by (subst load_addItem) (simp add: l0 s jsonItem_def newLine_def scarf_def del: parseInt.simps)
  ultimately show ?thesis by (simp add: newLine_def)
qed

text \<open>What the coercion does give: one for anything that is not a number or is zero.\<close>

lemma coerceQty_cases:
  "coerceQty (defaultQty QUndefined) = Fin 1 \<and> coerceQty (QNum 0) = Fin 1
   \<and> coerceQty (QStr ''abc'') = Fin 1 \<and> coerceQty (QStr ''null'') = Fin 1
   \<and> coerceQty (QStr ''3'') = Fin 3"
proof -
  have "fl 3 = Fin 3" using fl_of_int [of 3] by simp
  moreover have "parseInt (QNum 1) = Fin 1" "parseInt (QNum 0) = Fin 0"
    using parseInt_safe [of 1] parseInt_safe [of 0] by simp_all
  ultimately show ?thesis
    by (simp add: coerceQty_def orOne_def parseIntStr_def isSpace_def isDigit_def digitsValue_def
        del: parseInt.simps(1))
qed

lemma coerceQty_positive: "0 \<le> n \<Longrightarrow> n < 2 ^ 53 \<Longrightarrow> \<exists>m\<ge>1. coerceQty (QNum n) = Fin (of_int m)"
proof (cases "n = 0")
  case True
  have "parseInt (QNum 0) = Fin 0" using parseInt_safe [of 0] by simp
  then have "coerceQty (QNum 0) = Fin (of_int 1)" by (simp add: coerceQty_def orOne_def del: parseInt.simps)
  with True show ?thesis by blast
next
  case False
  assume "0 \<le> n" "n < 2 ^ 53"
  with False have "coerceQty (QNum n) = Fin (of_int n)" and "1 \<le> n"
    by (simp_all add: coerceQty_safe)
  then show ?thesis by blast
qed
section \<open>Placing an order\<close>

lemma jsTimes_ints:
  "\<bar>a * b\<bar> < 2 ^ 53 \<Longrightarrow> jsTimes (Fin (of_int a)) (Fin (of_int b)) = Fin (of_int (a * b))"
  using fl_of_int [of "a * b"] by (simp add: jsTimes_def)

lemma getOrders_save: "getOrders (save xs st) = getOrders st"
  by (simp add: getOrders_def save_def)

lemma getOrders_unshiftOrder:
  "lh_orders_v1 st \<noteq> Garbled \<Longrightarrow> getOrders (unshiftOrder ord st) = jsonOrder ord # getOrders st"
  by (cases "lh_orders_v1 st") (simp_all add: getOrders_def unshiftOrder_def jsonOrder_idem)

lemma unshiftOrder_Garbled:
  "lh_orders_v1 st = Garbled \<Longrightarrow> unshiftOrder ord st = st"
  by (simp add: unshiftOrder_def)

lemma placeOrder_empty: "load st = [] \<Longrightarrow> placeOrder e ov st = st"
  by (simp add: placeOrder_def)

text \<open>
  With a history that is absent or parses, the order that \<open>makeOrder\<close> builds from the cart
  is put in front of it, as JSON keeps it.
\<close>

lemma placeOrder_orders:
  "load st \<noteq> [] \<Longrightarrow> lh_orders_v1 st \<noteq> Garbled \<Longrightarrow>
   getOrders (placeOrder e ov st) = jsonOrder (makeOrder e ov (load st)) # getOrders st"
  by (simp add: placeOrder_def Let_def getOrders_save getOrders_unshiftOrder)

lemma placeOrder_garbled:
  "lh_orders_v1 st = Garbled \<Longrightarrow>
   lh_orders_v1 (placeOrder e ov st) = Garbled \<and> getOrders (placeOrder e ov st) = []
   \<and> load (placeOrder e ov st) = []"
  by (simp add: placeOrder_def Let_def unshiftOrder_Garbled save_def getOrders_def load_def)

text \<open>
  Claim C1. For every non-empty cart \<open>placeOrder\<close> should put a new order in front of the
  order history and then empty the cart. With a stored history that does not parse (which
  \<open>getOrders\<close> reads as the empty history) the cart is emptied and no order is recorded: the
  history is still unreadable and \<open>getOrders\<close> still gives the empty list.
\<close>

theorem placeOrder_loses_order:
  "load garbledHistory \<noteq> []
   \<and> getOrders garbledHistory = []
   \<and> getOrders (placeOrder today Map.empty garbledHistory) = []
   \<and> lh_orders_v1 (placeOrder today Map.empty garbledHistory) = Garbled
   \<and> load (placeOrder today Map.empty garbledHistory) = []"
proof -
  have g: "lh_orders_v1 garbledHistory = Garbled"
    by (simp add: garbledHistory_def emptyStorage_def)
  have "load garbledHistory \<noteq> []"
    by (simp add: garbledHistory_def emptyStorage_def load_def cartOfScarves_def)
  moreover have "getOrders garbledHistory = []"
    by (simp add: getOrders_def g)
  ultimately show ?thesis
    using placeOrder_garbled [OF g, of today Map.empty] by simp
qed

text \<open>
  The scenario of the spec over a readable history: one line of price 10, quantity 2 and
  shipping cost 5, no overrides. The new order stands before the earlier one and the cart
  is empty; its total is the double \<open>25 * 1.1\<close>, which prints as \<^verbatim>\<open>27.500000000000004\<close>.
\<close>

lemma subtotal_scenario: "subtotal Map.empty cartOfScarves = Fin 25"
proof -
  have "jsTimes (Fin 10) (Fin 2) = Fin 20" using jsTimes_ints [of 10 2] by simp
  moreover have "jsPlus (Fin 0) (Fin 20) = Fin 20" using jsPlus_ints [of 0 20] by simp
  moreover have "jsPlus (Fin 20) (Fin 5) = Fin 25" using jsPlus_ints [of 20 5] by simp
  ultimately show ?thesis
    by (simp add: subtotal_def cartOfScarves_def newLine_def scarf_def shipping_def
        getProperty_def prototypeFunctions_def)
qed

lemma placeOrder_scenario:
  "map total (getOrders (placeOrder today Map.empty oneOrder))
     = [Fin (7740561859543041 / 2 ^ 48), Fin 11]
   \<and> map items (getOrders (placeOrder today Map.empty oneOrder))
     = [cartOfScarves, [newLine scarf (Fin 1)]]
   \<and> load (placeOrder today Map.empty oneOrder) = []"
proof -
  have l: "load oneOrder = cartOfScarves"
    by (simp add: oneOrder_def emptyStorage_def load_def cartOfScarves_def jsonItem_def
        newLine_def scarf_def)
  have o: "getOrders oneOrder = [earlierOrder]"
    by (simp add: oneOrder_def emptyStorage_def getOrders_def jsonOrder_def jsonItem_def
        earlierOrder_def newLine_def scarf_def)
  have "load oneOrder \<noteq> []" by (simp add: l cartOfScarves_def)
  moreover have "lh_orders_v1 oneOrder \<noteq> Garbled" by (simp add: oneOrder_def emptyStorage_def)
  ultimately have "getOrders (placeOrder today Map.empty oneOrder)
      = jsonOrder (makeOrder today Map.empty cartOfScarves) # [earlierOrder]"
    by (simp add: placeOrder_orders l o)
  moreover have "total (jsonOrder (makeOrder today Map.empty cartOfScarves))
      = Fin (7740561859543041 / 2 ^ 48)"
    by (simp add: jsonOrder_def makeOrder_def subtotal_scenario twentyfive_times_onePointOne)
  moreover have "items (jsonOrder (makeOrder today Map.empty cartOfScarves)) = cartOfScarves"
    by (simp add: jsonOrder_def makeOrder_def cartOfScarves_def newLine_def scarf_def
        shipping_def getProperty_def prototypeFunctions_def jsonItem_def)
  ultimately show ?thesis
    by (simp add: load_placeOrder earlierOrder_def)
qed

text \<open>With an own override for the line's id the order carries the override.\<close>

lemma shipping_override_example:
  "shipping [''p1'' \<mapsto> Fin 0] (newLine scarf (Fin 2)) = Fin 0
   \<and> shipping Map.empty (newLine scarf (Fin 2)) = Fin 5"
  by (simp add: shipping_def getProperty_def prototypeFunctions_def newLine_def scarf_def)

text \<open>
  A line whose id names a member of \<^verbatim>\<open>Object.prototype\<close> finds that member in an empty
  overrides object: the sum turns into a string, the total is \<^verbatim>\<open>NaN\<close>, stored as \<^verbatim>\<open>null\<close>, and
  the stored line has no shipping cost.
\<close>

lemma placeOrder_inherited_member:
  "shipping Map.empty (newLine (scarf\<lparr>prod_id := ''toString''\<rparr>) (Fin 2)) = Function
   \<and> subtotal Map.empty [newLine (scarf\<lparr>prod_id := ''toString''\<rparr>) (Fin 2)] = Text
   \<and> total (jsonOrder (makeOrder today Map.empty
                [newLine (scarf\<lparr>prod_id := ''toString''\<rparr>) (Fin 2)])) = Null
   \<and> map item_shippingCost (items (jsonOrder (makeOrder today Map.empty
                [newLine (scarf\<lparr>prod_id := ''toString''\<rparr>) (Fin 2)]))) = [Undefined]"
proof -
  have s: "shipping Map.empty (newLine (scarf\<lparr>prod_id := ''toString''\<rparr>) (Fin 2)) = Function"
    by (simp add: shipping_def getProperty_def prototypeFunctions_def newLine_def scarf_def)
  then have t: "subtotal Map.empty [newLine (scarf\<lparr>prod_id := ''toString''\<rparr>) (Fin 2)] = Text"
    by (simp add: subtotal_def jsPlus_def textual_def)
  have "jsTimes Text onePointOne = NaN"
    by (simp add: jsTimes_def)
  with s t show ?thesis
    by (simp add: jsonOrder_def makeOrder_def jsonItem_def)
qed

section \<open>The order history\<close>

text \<open>Claim C7 (as stated) fails: \<open>clear\<close> empties the cart, and the orders stay.\<close>

theorem clear_keeps_orders_counterexample:
  "getOrders (clear oneOrder) = [earlierOrder] \<and> getOrders (clear oneOrder) \<noteq> []"
  by (simp add: oneOrder_def emptyStorage_def clear_def save_def getOrders_def jsonOrder_def
      jsonItem_def earlierOrder_def newLine_def scarf_def)

text \<open>
  Claim C7, amended. \<open>clear\<close> empties the cart and leaves the order history as it is; the
  history is cleared by the order page's reset (\<open>handleConfirmClear\<close>, which removes the
  key and leaves the cart alone), after which \<open>getOrders\<close> gives the empty list. No
  operation of the cart store changes or drops an order of the history: \<open>placeOrder\<close> only
  puts orders in front of it, and \<open>addItem\<close>, \<open>updateQty\<close>, \<open>removeItem\<close> and \<open>clear\<close> leave
  the stored history untouched.
\<close>

theorem clear_keeps_orders:
  "load (clear st) = [] \<and> lh_orders_v1 (clear st) = lh_orders_v1 st
   \<and> getOrders (clear st) = getOrders st
   \<and> getOrders (handleConfirmClear st) = [] \<and> load (handleConfirmClear st) = load st
   \<and> (\<exists>new. getOrders (placeOrder e deliveryOverrides st) = new @ getOrders st)
   \<and> lh_orders_v1 (addItem p qty st) = lh_orders_v1 st
   \<and> lh_orders_v1 (updateQty pid qty st) = lh_orders_v1 st
   \<and> lh_orders_v1 (removeItem pid st) = lh_orders_v1 st"
proof -
  have "\<exists>new. getOrders (placeOrder e deliveryOverrides st) = new @ getOrders st"
  proof (cases "load st = [] \<or> lh_orders_v1 st = Garbled")
    case True
    then have "getOrders (placeOrder e deliveryOverrides st) = [] @ getOrders st"
      by (auto simp: placeOrder_def Let_def getOrders_save unshiftOrder_Garbled)
    then show ?thesis ..
  next
    case False
    then have "getOrders (placeOrder e deliveryOverrides st)
        = [jsonOrder (makeOrder e deliveryOverrides (load st))] @ getOrders st"
      by (simp add: placeOrder_orders)
    then show ?thesis ..
  qed
  then show ?thesis
    by (simp add: clear_def load_save getOrders_save handleConfirmClear_def getOrders_def
        load_def save_def addItem_def updateQty_def removeItem_def Let_def split: option.splits)
qed

section \<open>Registration and login\<close>

lemma list_ex_set: "list_ex P xs = (\<exists>x\<in>set xs. P x)"
  by (simp add: list_ex_iff)

text \<open>The scenario of the spec: the first registration on an empty store.\<close>

lemma lower_examples:
  "toLowerCase ''A@x.com'' = ''a@x.com'' \<and> toLowerCase ''a@x.com'' = ''a@x.com''
   \<and> toLowerCase ''amina'' = ''amina'' \<and> toLowerCase ''Amina'' = ''amina''
   \<and> toLowerCase ''amina '' = ''amina '' \<and> toLowerCase ''b@x.com'' = ''b@x.com''
   \<and> toLowerCase ''c@x.com'' = ''c@x.com'' \<and> toLowerCase ''bob'' = ''bob''"
  by code_simp

lemma trim_examples:
  "trim ''amina'' = ''amina'' \<and> trim ''amina '' = ''amina'' \<and> trim ''A@x.com'' = ''A@x.com''
   \<and> trim ''c@x.com'' = ''c@x.com''"
  by code_simp

lemma showNat_examples: "showNat (Suc 0) = ''1'' \<and> showNat 3 = ''3''"
  by (simp add: showNat.simps digitChar_def)

lemma register_amina:
  "register 1 ''amina'' ''A@x.com'' ''secret1'' emptyStorage = (Inr aminaAccount, aminaOnly)"
  by (simp add: register_def Let_def emptyStorage_def loadUsers_def saveUsers_def saveSession_def
      lower_examples trim_examples showNat_examples aminaAccount_def aminaOnly_def
      aminaSession_def)

text \<open>
  Claim C3. \<open>register\<close> fails with the validation error when one of the three fields is
  empty; otherwise with the conflict error for the e-mail address when an account's address
  is the same up to letter case, whatever the user name; otherwise with the conflict error
  for the user name when an account's user name is the same up to letter case. The storage
  is left as it was.
\<close>

theorem register_failures:
  "(username = [] \<or> email = [] \<or> password = [] \<longrightarrow>
      register now username email password st = (Inl AllFieldsRequired, st))
   \<and> (username \<noteq> [] \<and> email \<noteq> [] \<and> password \<noteq> []
        \<and> (\<exists>u\<in>set (loadUsers st). toLowerCase (u_email u) = toLowerCase email) \<longrightarrow>
      register now username email password st = (Inl EmailTaken, st))
   \<and> (username \<noteq> [] \<and> email \<noteq> [] \<and> password \<noteq> []
        \<and> (\<forall>u\<in>set (loadUsers st). toLowerCase (u_email u) \<noteq> toLowerCase email)
        \<and> (\<exists>u\<in>set (loadUsers st). toLowerCase (u_username u) = toLowerCase username) \<longrightarrow>
      register now username email password st = (Inl UsernameTaken, st))"
  by (auto simp: register_def Let_def list_ex_set)

theorem register_failures_witness:
  "register 2 '''' ''b@x.com'' ''secret2'' aminaOnly = (Inl AllFieldsRequired, aminaOnly)
   \<and> snd (register 1 ''amina'' ''A@x.com'' ''secret1'' emptyStorage) = aminaOnly
   \<and> register 2 ''bob'' ''a@x.com'' ''secret2'' aminaOnly = (Inl EmailTaken, aminaOnly)
   \<and> register 2 ''Amina'' ''b@x.com'' ''secret2'' aminaOnly = (Inl UsernameTaken, aminaOnly)"
proof -
  have us: "loadUsers aminaOnly = [aminaAccount]"
    by (simp add: aminaOnly_def emptyStorage_def loadUsers_def)
  have e: "\<exists>u\<in>set (loadUsers aminaOnly). toLowerCase (u_email u) = toLowerCase ''a@x.com''"
    by (simp add: us aminaAccount_def lower_examples)
  have ne: "\<forall>u\<in>set (loadUsers aminaOnly). toLowerCase (u_email u) \<noteq> toLowerCase ''b@x.com''"
    by (simp add: us aminaAccount_def lower_examples)
  have n: "\<exists>u\<in>set (loadUsers aminaOnly). toLowerCase (u_username u) = toLowerCase ''Amina''"
    by (simp add: us aminaAccount_def lower_examples)
  from register_failures [of "''''" "''b@x.com''" "''secret2''" 2 aminaOnly]
  have a: "register 2 '''' ''b@x.com'' ''secret2'' aminaOnly = (Inl AllFieldsRequired, aminaOnly)"
    by simp
  from register_failures [of "''bob''" "''a@x.com''" "''secret2''" 2 aminaOnly] e
  have b: "register 2 ''bob'' ''a@x.com'' ''secret2'' aminaOnly = (Inl EmailTaken, aminaOnly)"
    by simp
  from register_failures [of "''Amina''" "''b@x.com''" "''secret2''" 2 aminaOnly] ne n
  have c: "register 2 ''Amina'' ''b@x.com'' ''secret2'' aminaOnly = (Inl UsernameTaken, aminaOnly)"
    by simp
  from a b c register_amina show ?thesis by simp
qed

text \<open>
  Claim C4. A login with the credentials of a successful registration should succeed.
  \<open>register\<close> stores the user name trimmed, and \<open>login\<close> compares the identifier as it was
  typed: after registering the user name \<open>amina\<close> followed by a blank, a login with that
  same user name and password finds no account.
\<close>

theorem register_then_login_fails:
  "fst (register 3 ''amina '' ''c@x.com'' ''secret1'' emptyStorage)
     = Inr \<lparr>u_id = ''user-3'', u_username = ''amina'', u_email = ''c@x.com'',
            u_password = ''secret1''\<rparr>
   \<and> fst (login ''amina '' ''secret1''
              (snd (register 3 ''amina '' ''c@x.com'' ''secret1'' emptyStorage)))
     = Inl NoAccountFound"
  by (simp add: register_def login_def Let_def emptyStorage_def loadUsers_def saveUsers_def
      saveSession_def lower_examples trim_examples showNat_examples)

text \<open>
  Claim C5. A successful registration should keep user names and e-mail addresses unique up
  to letter case. The check for a taken name compares the name as it was typed and the
  account stores it trimmed: with \<open>amina\<close> registered, registering \<open>amina\<close> followed by a
  blank succeeds and the list then holds the user name \<open>amina\<close> twice.
\<close>

theorem register_breaks_uniqueness:
  "uniqueAccounts (loadUsers aminaOnly)
   \<and> fst (register 3 ''amina '' ''c@x.com'' ''secret1'' aminaOnly)
       = Inr \<lparr>u_id = ''user-3'', u_username = ''amina'', u_email = ''c@x.com'',
              u_password = ''secret1''\<rparr>
   \<and> map u_username (loadUsers (snd (register 3 ''amina '' ''c@x.com'' ''secret1'' aminaOnly)))
       = [''amina'', ''amina'']
   \<and> \<not> uniqueAccounts (loadUsers (snd (register 3 ''amina '' ''c@x.com'' ''secret1'' aminaOnly)))"
  by (simp add: register_def Let_def aminaOnly_def emptyStorage_def loadUsers_def saveUsers_def
      saveSession_def uniqueAccounts_def aminaAccount_def lower_examples trim_examples
      showNat_examples)

subsection \<open>Registration with trimmed input\<close>

lemma lowerChar_idem: "lowerChar (lowerChar c) = lowerChar c"
  by (simp add: lowerChar_def Let_def)

lemma toLowerCase_idem: "toLowerCase (toLowerCase s) = toLowerCase s"
  by (simp add: toLowerCase_def lowerChar_idem)

lemma find_snoc:
  "find P (xs @ [n]) = (case find P xs of Some x \<Rightarrow> Some x | None \<Rightarrow> if P n then Some n else None)"
  by (induction xs) auto

text \<open>What a successful registration has checked and written.\<close>

lemma register_success:
  assumes "register now username email password st = (Inr a, st')"
  shows "username \<noteq> [] \<and> email \<noteq> [] \<and> password \<noteq> []
       \<and> (\<forall>u\<in>set (loadUsers st). toLowerCase (u_email u) \<noteq> toLowerCase email)
       \<and> (\<forall>u\<in>set (loadUsers st). toLowerCase (u_username u) \<noteq> toLowerCase username)
       \<and> u_id a = ''user-'' @ showNat now \<and> u_username a = trim username
       \<and> u_email a = toLowerCase (trim email) \<and> u_password a = password
       \<and> loadUsers st' = loadUsers st @ [a]
       \<and> loadSession st' = Some \<lparr>s_id = u_id a, s_username = u_username a, s_email = u_email a\<rparr>
       \<and> saveSession a st' = st'"
  using assms
  by (auto simp: register_def Let_def list_ex_set loadUsers_def saveUsers_def saveSession_def
      loadSession_def split: if_splits)

text \<open>
  For a user name and an e-mail address without white space at either end, registration
  does keep the accounts unique.
\<close>

lemma register_keeps_unique_trimmed:
  assumes "uniqueAccounts (loadUsers st)" and "trim username = username" and "trim email = email"
    and "register now username email password st = (Inr a, st')"
  shows "uniqueAccounts (loadUsers st')"
proof -
  from register_success [OF assms(4)] assms(2,3)
  have e: "\<forall>u\<in>set (loadUsers st). toLowerCase (u_email u) \<noteq> toLowerCase email"
    and n: "\<forall>u\<in>set (loadUsers st). toLowerCase (u_username u) \<noteq> toLowerCase username"
    and a: "u_username a = username" "u_email a = toLowerCase email"
    and l: "loadUsers st' = loadUsers st @ [a]"
    by auto
  from assms(1) e n show ?thesis
    by (auto simp: uniqueAccounts_def l a toLowerCase_idem)
qed

text \<open>
  And a login with the registered user name, or e-mail address, succeeds when it was typed
  without white space at either end and no earlier account answers to it through the other
  field.
\<close>

lemma register_then_login_username:
  assumes "register now username email password st = (Inr a, st')"
    and "trim username = username"
    and "\<forall>u\<in>set (loadUsers st). u_email u \<noteq> toLowerCase username"
  shows "login username password st' = (Inr a, st')"
proof -
  let ?P = "\<lambda>u. u_email u = toLowerCase username \<or> toLowerCase (u_username u) = toLowerCase username"
  from register_success [OF assms(1)] assms(2)
  have ne: "username \<noteq> []" "password \<noteq> []"
    and n: "\<forall>u\<in>set (loadUsers st). toLowerCase (u_username u) \<noteq> toLowerCase username"
    and a: "u_username a = username" "u_password a = password"
    and l: "loadUsers st' = loadUsers st @ [a]"
    and s: "saveSession a st' = st'"
    by auto
  from n assms(3) have "find ?P (loadUsers st) = None"
    by (auto simp: find_None_iff)
  then have "find ?P (loadUsers st') = Some a"
    by (simp add: l find_snoc a)
  with ne a s show ?thesis by (simp add: login_def)
qed

lemma register_then_login_email:
  assumes "register now username email password st = (Inr a, st')"
    and "trim email = email"
    and "\<forall>u\<in>set (loadUsers st). toLowerCase (u_username u) \<noteq> toLowerCase email"
  shows "login email password st' = (Inr a, st')"
proof -
  let ?P = "\<lambda>u. u_email u = toLowerCase email \<or> toLowerCase (u_username u) = toLowerCase email"
  from register_success [OF assms(1)] assms(2)
  have ne: "email \<noteq> []" "password \<noteq> []"
    and e: "\<forall>u\<in>set (loadUsers st). toLowerCase (u_email u) \<noteq> toLowerCase email"
    and a: "u_email a = toLowerCase email" "u_password a = password"
    and l: "loadUsers st' = loadUsers st @ [a]"
    and s: "saveSession a st' = st'"
    by auto
  have "u_email u \<noteq> toLowerCase email" if "u \<in> set (loadUsers st)" for u
  proof
    assume "u_email u = toLowerCase email"
    then have "toLowerCase (u_email u) = toLowerCase email" by (simp add: toLowerCase_idem)
    with e that show False by blast
  qed
  with assms(3) have "find ?P (loadUsers st) = None"
    by (auto simp: find_None_iff)
  then have "find ?P (loadUsers st') = Some a"
    by (simp add: l find_snoc a)
  with ne a s show ?thesis by (simp add: login_def)
qed

section \<open>Changing the password on the profile page\<close>

lemma changePassword_length: "length (changePassword uid newPw users) = length users"
  by (simp add: changePassword_def)

lemma changePassword_nth:
  "k < length users \<Longrightarrow>
   changePassword uid newPw users ! k =
     (if u_id (users ! k) = uid then (users ! k)\<lparr>u_password := newPw\<rparr> else users ! k)"
  by (simp add: changePassword_def)

lemma handleChangePassword_mismatch:
  assumes "6 \<le> length newPw" and "parseUsers st = Inr users"
    and "find (\<lambda>u. u_id u = s_id user) users = None
         \<or> (\<exists>stored. find (\<lambda>u. u_id u = s_id user) users = Some stored
                      \<and> u_password stored \<noteq> currentPw)"
  shows "handleChangePassword user currentPw newPw newPw st = (Some CurrentPasswordIncorrect, st)"
  using assms by (auto simp: handleChangePassword_def)

lemma handleChangePassword_match:
  assumes "6 \<le> length newPw" and "parseUsers st = Inr users"
    and "find (\<lambda>u. u_id u = s_id user) users = Some stored"
    and "u_password stored = currentPw"
  shows "handleChangePassword user currentPw newPw newPw st
         = (None, st\<lparr>lh_users_v1 := Stored (changePassword (s_id user) newPw users)\<rparr>)"
  using assms by (simp add: handleChangePassword_def)

text \<open>
  Claim C10. With a new password of at least six characters that equals its confirmation,
  and \<open>users\<close> the stored account list: when no account has the session's id or the first
  such account's password differs from the one entered, the form fails with the auth error
  and the storage is left exactly as it was; when it matches, only the account list is
  written, it keeps its length and order, every account keeps its id, user name and e-mail
  address, the accounts with the session's id get the new password and all others are
  unchanged.
\<close>

theorem handleChangePassword_frame:
  assumes "6 \<le> length newPw" and "parseUsers st = Inr users"
  shows "(find (\<lambda>u. u_id u = s_id user) users = None
            \<or> (\<exists>stored. find (\<lambda>u. u_id u = s_id user) users = Some stored
                         \<and> u_password stored \<noteq> currentPw) \<longrightarrow>
          handleChangePassword user currentPw newPw newPw st = (Some CurrentPasswordIncorrect, st))
       \<and> ((\<exists>stored. find (\<lambda>u. u_id u = s_id user) users = Some stored
                      \<and> u_password stored = currentPw) \<longrightarrow>
          (\<exists>users'.
             handleChangePassword user currentPw newPw newPw st
               = (None, st\<lparr>lh_users_v1 := Stored users'\<rparr>)
             \<and> length users' = length users
             \<and> (\<forall>k<length users.
                   u_id (users' ! k) = u_id (users ! k)
                   \<and> u_username (users' ! k) = u_username (users ! k)
                   \<and> u_email (users' ! k) = u_email (users ! k)
                   \<and> (if u_id (users ! k) = s_id user then u_password (users' ! k) = newPw
                       else users' ! k = users ! k))))"
proof (intro conjI impI)
  assume "find (\<lambda>u. u_id u = s_id user) users = None
            \<or> (\<exists>stored. find (\<lambda>u. u_id u = s_id user) users = Some stored
                         \<and> u_password stored \<noteq> currentPw)"
  with assms show "handleChangePassword user currentPw newPw newPw st
                   = (Some CurrentPasswordIncorrect, st)"
    by (rule handleChangePassword_mismatch)
next
  assume "\<exists>stored. find (\<lambda>u. u_id u = s_id user) users = Some stored
                    \<and> u_password stored = currentPw"
  then obtain stored where "find (\<lambda>u. u_id u = s_id user) users = Some stored"
    and "u_password stored = currentPw" by blast
  with assms have "handleChangePassword user currentPw newPw newPw st
         = (None, st\<lparr>lh_users_v1 := Stored (changePassword (s_id user) newPw users)\<rparr>)"
    by (rule handleChangePassword_match)
  moreover have "length (changePassword (s_id user) newPw users) = length users"
    by (rule changePassword_length)
  moreover have "\<forall>k<length users.
       u_id (changePassword (s_id user) newPw users ! k) = u_id (users ! k)
       \<and> u_username (changePassword (s_id user) newPw users ! k) = u_username (users ! k)
       \<and> u_email (changePassword (s_id user) newPw users ! k) = u_email (users ! k)
       \<and> (if u_id (users ! k) = s_id user
           then u_password (changePassword (s_id user) newPw users ! k) = newPw
           else changePassword (s_id user) newPw users ! k = users ! k)"
    by (simp add: changePassword_nth)
  ultimately show "\<exists>users'.
             handleChangePassword user currentPw newPw newPw st
               = (None, st\<lparr>lh_users_v1 := Stored users'\<rparr>)
             \<and> length users' = length users
             \<and> (\<forall>k<length users.
                   u_id (users' ! k) = u_id (users ! k)
                   \<and> u_username (users' ! k) = u_username (users ! k)
                   \<and> u_email (users' ! k) = u_email (users ! k)
                   \<and> (if u_id (users ! k) = s_id user then u_password (users' ! k) = newPw
                       else users' ! k = users ! k))"
    by blast
qed

text \<open>
  With two accounts stored and the first logged in: a wrong current password leaves the
  storage as it was, the right one changes the first account's password and nothing else.
\<close>

theorem handleChangePassword_frame_witness:
  "(6::nat) \<le> length ''secret9'' \<and> parseUsers twoAccounts = Inr [aminaAccount, bobAccount]
   \<and> handleChangePassword aminaSession ''wrong'' ''secret9'' ''secret9'' twoAccounts
       = (Some CurrentPasswordIncorrect, twoAccounts)
   \<and> handleChangePassword aminaSession ''secret1'' ''secret9'' ''secret9'' twoAccounts
       = (None, twoAccounts\<lparr>lh_users_v1 :=
                  Stored [aminaAccount\<lparr>u_password := ''secret9''\<rparr>, bobAccount]\<rparr>)"
proof -
  have l: "6 \<le> length ''secret9''" by simp
  have p: "parseUsers twoAccounts = Inr [aminaAccount, bobAccount]"
    by (simp add: parseUsers_def twoAccounts_def emptyStorage_def)
  have f: "find (\<lambda>u. u_id u = s_id aminaSession) [aminaAccount, bobAccount] = Some aminaAccount"
    by (simp add: aminaSession_def aminaAccount_def)
  have w: "u_password aminaAccount \<noteq> ''wrong''" and r: "u_password aminaAccount = ''secret1''"
    by (simp_all add: aminaAccount_def)
  from handleChangePassword_frame [OF l p, of aminaSession "''wrong''"] f w
  have a: "handleChangePassword aminaSession ''wrong'' ''secret9'' ''secret9'' twoAccounts
       = (Some CurrentPasswordIncorrect, twoAccounts)"
    by simp
  from handleChangePassword_frame [OF l p, of aminaSession "''secret1''"] f r
  obtain users' where
    h: "handleChangePassword aminaSession ''secret1'' ''secret9'' ''secret9'' twoAccounts
          = (None, twoAccounts\<lparr>lh_users_v1 := Stored users'\<rparr>)"
    and n: "length users' = length [aminaAccount, bobAccount]"
    and k: "\<forall>k<length [aminaAccount, bobAccount].
              u_id (users' ! k) = u_id ([aminaAccount, bobAccount] ! k)
              \<and> u_username (users' ! k) = u_username ([aminaAccount, bobAccount] ! k)
              \<and> u_email (users' ! k) = u_email ([aminaAccount, bobAccount] ! k)
              \<and> (if u_id ([aminaAccount, bobAccount] ! k) = s_id aminaSession
                  then u_password (users' ! k) = ''secret9''
                  else users' ! k = [aminaAccount, bobAccount] ! k)"
    by auto
  from n obtain x y where xy: "users' = [x, y]"
    by (cases users'; cases "tl users'") auto
  from k [rule_format, of 0] have "x = aminaAccount\<lparr>u_password := ''secret9''\<rparr>"
    by (simp add: xy aminaAccount_def aminaSession_def)
  moreover from k [rule_format, of 1] have "y = bobAccount"
    by (simp add: xy aminaAccount_def bobAccount_def aminaSession_def)
  ultimately show ?thesis using l p a h xy by simp
qed

section \<open>Favourites\<close>

lemma getFavKey_saveFavorites: "getFavKey (saveFavorites xs st) = getFavKey st"
  by (simp add: saveFavorites_def getFavKey_def getCurrentUser_def loadSession_def
      split: option.splits cell.splits)

lemma loadFavorites_saveFavorites:
  "getCurrentUser st \<noteq> None \<Longrightarrow> loadFavorites (saveFavorites xs st) = map jsonFavorite xs"
  by (auto simp: loadFavorites_def saveFavorites_def getFavKey_def getCurrentUser_def
      loadSession_def split: option.splits cell.splits)

lemma prod_id_jsonFavorite: "prod_id (fav_product (jsonFavorite f)) = prod_id (fav_product f)"
  by (simp add: jsonFavorite_def jsonProduct_def)

lemma list_ex_jsonFavorite:
  "list_ex (\<lambda>i. prod_id (fav_product i) = pid) (map jsonFavorite xs)
   = list_ex (\<lambda>i. prod_id (fav_product i) = pid) xs"
  by (simp add: list_ex_iff prod_id_jsonFavorite)

lemma loadFavorites_guest: "getCurrentUser st = None \<Longrightarrow> loadFavorites st = []"
  by (simp add: loadFavorites_def getFavKey_def)

lemma saveFavorites_guest: "getCurrentUser st = None \<Longrightarrow> saveFavorites xs st = st"
  by (simp add: saveFavorites_def getFavKey_def)

lemma toggle_result: "fst (toggle p now st) = (\<not> isFavorited (prod_id p) st)"
  by (simp add: toggle_def isFavorited_def Let_def)

lemma toggle_favorited_after:
  "getCurrentUser st \<noteq> None \<Longrightarrow>
   isFavorited (prod_id p) (snd (toggle p now st)) = (\<not> isFavorited (prod_id p) st)"
  by (auto simp: toggle_def isFavorited_def Let_def loadFavorites_saveFavorites
      list_ex_set prod_id_jsonFavorite)

lemma getCurrentUser_toggle: "getCurrentUser (snd (toggle p now st)) = getCurrentUser st"
  by (simp add: toggle_def Let_def saveFavorites_def getFavKey_def getCurrentUser_def
      loadSession_def split: option.splits cell.splits)

text \<open>
  Claim C6 (as stated) fails in two ways. For a product that is already a favourite, two
  calls of \<open>toggle\<close> answer \<open>False\<close> then \<open>True\<close>. Without a session \<open>toggle\<close> answers
  \<open>True\<close> while nothing is stored, and a second call answers \<open>True\<close> again.
\<close>

theorem toggle_twice_counterexample:
  "isFavorited (prod_id scarf) scarfFavorited
   \<and> fst (toggle scarf 5 scarfFavorited) = False
   \<and> fst (toggle scarf 6 (snd (toggle scarf 5 scarfFavorited))) = True
   \<and> getCurrentUser emptyStorage = None
   \<and> fst (toggle scarf 0 emptyStorage) = True
   \<and> \<not> isFavorited (prod_id scarf) (snd (toggle scarf 0 emptyStorage))
   \<and> getItems_fav (snd (toggle scarf 0 emptyStorage)) = []
   \<and> fst (toggle scarf 1 (snd (toggle scarf 0 emptyStorage))) = True"
  by (simp add: toggle_def isFavorited_def getItems_fav_def loadFavorites_def saveFavorites_def
      getFavKey_def getCurrentUser_def loadSession_def emptyStorage_def scarfFavorited_def
      aminaOnly_def aminaSession_def scarf_def jsonFavorite_def jsonProduct_def)

text \<open>
  Claim C6, amended. With a session: \<open>toggle\<close> answers \<open>True\<close> exactly when the product is
  among the favourites read back after the call, and \<open>False\<close> exactly when it was there
  before and has been removed; for a product that is not yet a favourite two calls in a row
  answer \<open>True\<close> then \<open>False\<close>, and \<open>isFavorited\<close> agrees with the stored list after each.
  Without a session: reading gives the empty list, and \<open>toggle\<close>, \<open>addItem\<close>, \<open>removeItem\<close>
  and \<open>clear\<close> leave the storage as it was.
\<close>

theorem toggle_reports:
  "(getCurrentUser st \<noteq> None \<longrightarrow>
      fst (toggle p now st) = isFavorited (prod_id p) (snd (toggle p now st))
      \<and> fst (toggle p now st) = (\<not> isFavorited (prod_id p) st)
      \<and> isFavorited (prod_id p) (snd (toggle p now st))
          = list_ex (\<lambda>i. prod_id (fav_product i) = prod_id p) (getItems_fav (snd (toggle p now st)))
      \<and> (\<not> isFavorited (prod_id p) st \<longrightarrow>
            fst (toggle p now st) = True
            \<and> isFavorited (prod_id p) (snd (toggle p now st))
            \<and> fst (toggle p now' (snd (toggle p now st))) = False
            \<and> \<not> isFavorited (prod_id p) (snd (toggle p now' (snd (toggle p now st))))))
   \<and> (getCurrentUser st = None \<longrightarrow>
        getItems_fav st = [] \<and> \<not> isFavorited pid st
        \<and> snd (toggle p now st) = st \<and> addItem_fav p now st = st
        \<and> removeItem_fav pid st = st \<and> clear_fav st = st)"
proof (intro conjI impI)
  assume s: "getCurrentUser st \<noteq> None"
  show "fst (toggle p now st) = isFavorited (prod_id p) (snd (toggle p now st))"
    using s by (simp add: toggle_result toggle_favorited_after)
  show "fst (toggle p now st) = (\<not> isFavorited (prod_id p) st)"
    by (rule toggle_result)
  show "isFavorited (prod_id p) (snd (toggle p now st))
          = list_ex (\<lambda>i. prod_id (fav_product i) = prod_id p) (getItems_fav (snd (toggle p now st)))"
    by (simp add: isFavorited_def getItems_fav_def)
  assume n: "\<not> isFavorited (prod_id p) st"
  show "fst (toggle p now st) = True" using n by (simp add: toggle_result)
  show a: "isFavorited (prod_id p) (snd (toggle p now st))"
    using s n by (simp add: toggle_favorited_after)
  show "fst (toggle p now' (snd (toggle p now st))) = False"
    using a by (simp add: toggle_result)
  show "\<not> isFavorited (prod_id p) (snd (toggle p now' (snd (toggle p now st))))"
    using s a by (simp add: toggle_favorited_after getCurrentUser_toggle)
next
  assume g: "getCurrentUser st = None"
  show "getItems_fav st = []" using g by (simp add: getItems_fav_def loadFavorites_guest)
  show "\<not> isFavorited pid st" using g by (simp add: isFavorited_def loadFavorites_guest)
  show "snd (toggle p now st) = st"
    using g by (simp add: toggle_def Let_def saveFavorites_guest)
  show "addItem_fav p now st = st"
    using g by (simp add: addItem_fav_def Let_def saveFavorites_guest)
  show "removeItem_fav pid st = st" using g by (simp add: removeItem_fav_def saveFavorites_guest)
  show "clear_fav st = st" using g by (simp add: clear_fav_def saveFavorites_guest)
qed

theorem toggle_reports_witness:
  "getCurrentUser aminaOnly \<noteq> None \<and> \<not> isFavorited (prod_id scarf) aminaOnly
   \<and> fst (toggle scarf 5 aminaOnly) = True
   \<and> isFavorited (prod_id scarf) (snd (toggle scarf 5 aminaOnly))
   \<and> fst (toggle scarf 6 (snd (toggle scarf 5 aminaOnly))) = False
   \<and> \<not> isFavorited (prod_id scarf) (snd (toggle scarf 6 (snd (toggle scarf 5 aminaOnly))))
   \<and> getCurrentUser emptyStorage = None \<and> getItems_fav emptyStorage = []
   \<and> snd (toggle scarf 5 emptyStorage) = emptyStorage"
proof -
  have s: "getCurrentUser aminaOnly \<noteq> None"
    by (simp add: getCurrentUser_def loadSession_def aminaOnly_def emptyStorage_def)
  have n: "\<not> isFavorited (prod_id scarf) aminaOnly"
    by (simp add: isFavorited_def loadFavorites_def getFavKey_def getCurrentUser_def
        loadSession_def aminaOnly_def emptyStorage_def)
  have g: "getCurrentUser emptyStorage = None"
    by (simp add: getCurrentUser_def loadSession_def emptyStorage_def)
  from toggle_reports [of aminaOnly scarf 5 6] s n
  have "fst (toggle scarf 5 aminaOnly) = True
      \<and> isFavorited (prod_id scarf) (snd (toggle scarf 5 aminaOnly))
      \<and> fst (toggle scarf 6 (snd (toggle scarf 5 aminaOnly))) = False
      \<and> \<not> isFavorited (prod_id scarf) (snd (toggle scarf 6 (snd (toggle scarf 5 aminaOnly))))"
    by blast
  moreover from toggle_reports [of emptyStorage scarf 5] g
  have "getItems_fav emptyStorage = [] \<and> snd (toggle scarf 5 emptyStorage) = emptyStorage"
    by simp
  ultimately show ?thesis using s n g by simp
qed

section \<open>The theme\<close>

lemma moduleLoad_stored:
  "lh_theme_v1 (moduleLoad stored prefersDark)
     = Some (if resolveInitialTheme stored prefersDark then ''dark'' else ''light'')"
  by (simp add: moduleLoad_def applyTheme_def)

text \<open>
  Claim C9. A change of the system's preference should switch the theme as long as the user
  has made no choice. Loading the module applies the resolved theme through \<open>applyTheme\<close>,
  which stores it under the theme key; the listener then finds a stored value and does
  nothing, whatever was stored before and whatever the system preferred. On a fresh
  storage with a light system theme, the system's change to dark leaves the theme light.
\<close>

theorem system_change_ignored_after_load:
  "onSystemChange matches (moduleLoad stored prefersDark) = moduleLoad stored prefersDark
   \<and> isDark (moduleLoad None False) = False
   \<and> isDark (onSystemChange True (moduleLoad None False)) = False
   \<and> lh_theme_v1 (moduleLoad None False) = Some ''light''"
  by (simp add: onSystemChange_def moduleLoad_def applyTheme_def resolveInitialTheme_def)

text \<open>
  The listener alone does follow the system when the key is absent (or empty), and keeps the
  theme when a value is stored; \<open>toggleTheme\<close> stores the choice.
\<close>

lemma onSystemChange_cases:
  "(lh_theme_v1 t = None \<longrightarrow> isDark (onSystemChange matches t) = matches)
   \<and> (lh_theme_v1 t = Some ''dark'' \<or> lh_theme_v1 t = Some ''light'' \<longrightarrow> onSystemChange matches t = t)
   \<and> onSystemChange matches (toggleTheme t) = toggleTheme t"
  by (auto simp: onSystemChange_def applyTheme_def toggleTheme_def)


end
